theory Spec2Isabelle
  imports Complex_Main
begin

section \<open>Python values, exceptions and formatting\<close>

text \<open>
  The development embeds \<^verbatim>\<open>DefaultTrainer\<close> of
  \<^verbatim>\<open>src/experimental/plugin/trainer/default_trainer.py\<close>: the methods
  \<^verbatim>\<open>recovery\<close>, \<^verbatim>\<open>save\<close>, \<^verbatim>\<open>train\<close> and
  \<^verbatim>\<open>_get_local_path\<close>. Exceptions are values: a method returns either
  \<open>Inl (e, s)\<close>, the exception \<open>e\<close> raised in the trainer state \<open>s\<close> reached at the
  raise (attribute assignments made before a raise persist in Python), or \<open>Inr s\<close>,
  the state after a normal return.
\<close>

datatype pyerr = AttributeError | KeyError | TypeError | RuntimeError | ValueError
  | FileNotFoundError | OverflowError | ZeroDivisionError

text \<open>
  Scalar configuration values, and a configuration entry: a scalar or a nested dict,
  given by its items (a key is looked up with \<open>map_of\<close>).
\<close>

datatype pyval = VNone | VInt int | VStr string

datatype cval = Scalar pyval | Dict "(string \<times> pyval) list"

text \<open>\<^verbatim>\<open>d.get(k, default)\<close>; \<^verbatim>\<open>d.get(k)\<close> is the call with default \<^verbatim>\<open>None\<close>.\<close>

definition dict_get :: "(string \<rightharpoonup> 'v) \<Rightarrow> string \<Rightarrow> 'v \<Rightarrow> 'v" where
  "dict_get d k dflt = (case d k of None \<Rightarrow> dflt | Some v \<Rightarrow> v)"

definition digit_char :: "nat \<Rightarrow> char" where
  "digit_char n = ''0123456789'' ! n"

function str_nat :: "nat \<Rightarrow> string" where
  "str_nat n = (if n < 10 then [digit_char n] else str_nat (n div 10) @ [digit_char (n mod 10)])"
  by pat_completeness auto
termination
  by (relation "measure (\<lambda>n. n)") auto

declare str_nat.simps [simp del]

text \<open>What an f-string \<^verbatim>\<open>f"{v}"\<close> prints for a scalar value.\<close>

fun py_str :: "pyval \<Rightarrow> string" where
  "py_str VNone = ''None''"
| "py_str (VStr s) = s"
| "py_str (VInt i) = (if i < 0 then ''-'' @ str_nat (nat (- i)) else str_nat (nat i))"

section \<open>Floating-point losses\<close>

text \<open>
  A Python float is a finite real, an infinity or a NaN; rounding is not modelled.
  \<^verbatim>\<open>math.exp\<close> is a parameter of the trainer's functions (a field of the engine
  below); \<open>libm_exp\<close> is the library's function over the reals: it raises
  \<^verbatim>\<open>OverflowError\<close> when the argument is finite and the result exceeds the
  largest double; it returns \<^verbatim>\<open>inf\<close>, \<^verbatim>\<open>0.0\<close> and \<^verbatim>\<open>nan\<close>
  for \<^verbatim>\<open>inf\<close>, \<^verbatim>\<open>-inf\<close> and \<^verbatim>\<open>nan\<close>.
\<close>

datatype pyfloat = Fin real | PInf | NInf | NaN

definition DBL_MAX :: real where
  "DBL_MAX = 2 ^ 1024 - 2 ^ 971"

fun libm_exp :: "pyfloat \<Rightarrow> pyerr + pyfloat" where
  "libm_exp (Fin x) = (if DBL_MAX < exp x then Inl OverflowError else Inr (Fin (exp x)))"
| "libm_exp PInf = Inr PInf"
| "libm_exp NInf = Inr (Fin 0)"
| "libm_exp NaN = Inr NaN"

fun fadd :: "pyfloat \<Rightarrow> pyfloat \<Rightarrow> pyfloat" where
  "fadd NaN y = NaN"
| "fadd x NaN = NaN"
| "fadd PInf NInf = NaN"
| "fadd NInf PInf = NaN"
| "fadd PInf y = PInf"
| "fadd x PInf = PInf"
| "fadd NInf y = NInf"
| "fadd x NInf = NInf"
| "fadd (Fin a) (Fin b) = Fin (a + b)"

fun fdiv_nat :: "pyfloat \<Rightarrow> nat \<Rightarrow> pyfloat" where
  "fdiv_nat (Fin a) n = Fin (a / real n)"
| "fdiv_nat x n = x"

text \<open>\<^verbatim>\<open>torch.mean\<close> of a one-dimensional tensor; the mean of no element is NaN.\<close>

definition torch_mean :: "pyfloat list \<Rightarrow> pyfloat" where
  "torch_mean xs = (if xs = [] then NaN else fdiv_nat (foldl fadd (Fin 0) xs) (length xs))"

text \<open>\<^verbatim>\<open>torch.cat\<close> of a list of one-dimensional tensors; it refuses the empty list.\<close>

definition torch_cat :: "pyfloat list list \<Rightarrow> pyerr + pyfloat list" where
  "torch_cat ts = (if ts = [] then Inl RuntimeError else Inr (concat ts))"

section \<open>Checkpoints and the trainer\<close>

text \<open>
  A state dict is an opaque blob, here the flattened contents. A stored checkpoint is the
  dict that \<^verbatim>\<open>Checkpoint.from_directory(path).to_dict()\<close> returns; a corrupt or
  foreign record is a dict with keys missing or values of another kind.
\<close>

type_synonym state_dict = "int list"

datatype ckval = CkInt int | CkState state_dict | CkStr string | CkNone

type_synonym checkpoint_dict = "string \<rightharpoonup> ckval"

text \<open>
  \<^verbatim>\<open>load_state_dict\<close> of a module or an optimizer: a value that is no state dict is a
  \<^verbatim>\<open>TypeError\<close>, a state of another shape is the error \<open>mismatch\<close>
  (\<^verbatim>\<open>RuntimeError\<close> for a module, \<^verbatim>\<open>ValueError\<close> for an optimizer); otherwise the
  loaded state replaces the current one. A scheduler takes any state dict.
\<close>

definition load_state_dict :: "pyerr \<Rightarrow> state_dict \<Rightarrow> ckval \<Rightarrow> pyerr + state_dict" where
  "load_state_dict mismatch cur v =
     (case v of
        CkState new \<Rightarrow> (if length new = length cur then Inr new else Inl mismatch)
      | _ \<Rightarrow> Inl TypeError)"

definition scheduler_load_state_dict :: "state_dict \<Rightarrow> ckval \<Rightarrow> pyerr + state_dict" where
  "scheduler_load_state_dict cur v =
     (case v of CkState new \<Rightarrow> Inr new | _ \<Rightarrow> Inl TypeError)"

text \<open>
  What the trainer does to its collaborators and its log, in order. Log lines carry
  their arguments; elapsed time is left out.
\<close>

datatype 'b event =
    Warn_checkpoint_empty
  | Warn_root_path_empty
  | Warn_recovery_error pyerr
  | Info_start_recovery string
  | Info_recovery_to_epoch int
  | Info_start_train_epoch int
  | ModelTrain
  | Forward 'b
  | Backward
  | OptimizerStep
  | SchedulerStep
  | ZeroGrad
  | Info_train_step int nat pyfloat pyfloat
  | Info_start_eval_epoch int
  | ModelEval
  | ForwardNoGrad 'b
  | Gather
  | Info_eval int pyfloat pyfloat
  | Info_save_checkpoint string
  | CheckpointWrite string
  | Info_save_finish
  | WaitForEveryone
  | Info_start_save_model cval
  | SavePretrained cval bool
  | Info_finish_save_model cval

text \<open>
  The fields of \<^verbatim>\<open>self\<close> after \<^verbatim>\<open>prepare\<close> has assigned them (lines 103 to 109),
  with the checkpoint directories (\<open>store\<close>) and the event trace. \<open>lr_scheduler = None\<close>
  is the attribute holding \<^verbatim>\<open>None\<close>. \<open>world_size\<close> is \<^verbatim>\<open>self.size\<close>.
\<close>

record 'b trainer =
  config :: "string \<rightharpoonup> cval"
  starting_epoch :: int
  model :: state_dict
  optimizer :: state_dict
  lr_scheduler :: "state_dict option"
  train_dataloader :: "'b list"
  eval_dataloader :: "'b list option"
  rank :: nat
  world_size :: nat
  is_main_process :: bool
  store :: "string \<rightharpoonup> checkpoint_dict"
  trace :: "'b event list"

text \<open>
  The tensor engine, outside the repository: the loss of a forward pass, the effect of
  \<^verbatim>\<open>backward\<close> and \<^verbatim>\<open>optimizer.step()\<close> on model and optimizer state, the effect
  of \<^verbatim>\<open>lr_scheduler.step()\<close> on scheduler and optimizer state, and the collective
  \<^verbatim>\<open>gather_for_metrics\<close>.
\<close>

record 'b engine =
  model_loss :: "state_dict \<Rightarrow> 'b \<Rightarrow> pyfloat"
  backward_step :: "state_dict \<Rightarrow> state_dict \<Rightarrow> 'b \<Rightarrow> state_dict \<times> state_dict"
  scheduler_step :: "state_dict \<Rightarrow> state_dict \<Rightarrow> state_dict \<times> state_dict"
  gather_for_metrics :: "pyfloat list \<Rightarrow> pyfloat list"
  math_exp :: "pyfloat \<Rightarrow> pyerr + pyfloat"

type_synonym 'b result = "pyerr \<times> 'b trainer + 'b trainer"

definition emit :: "'b event \<Rightarrow> 'b trainer \<Rightarrow> 'b trainer" where
  "emit e self = self\<lparr>trace := trace self @ [e]\<rparr>"

definition then_do :: "'b result \<Rightarrow> ('b trainer \<Rightarrow> 'b result) \<Rightarrow> 'b result" where
  "then_do r f = (case r of Inl x \<Rightarrow> Inl x | Inr s \<Rightarrow> f s)"

definition result_state :: "'b result \<Rightarrow> 'b trainer" where
  "result_state r = (case r of Inl (e, s) \<Rightarrow> s | Inr s \<Rightarrow> s)"

subsection \<open>\<^verbatim>\<open>_get_local_path\<close> (line 174)\<close>

definition get_local_path :: "'b trainer \<Rightarrow> pyval \<Rightarrow> pyval \<Rightarrow> string" where
  "get_local_path self root_path model_name =
     py_str root_path @ ''/'' @ py_str model_name @ ''_'' @ str_nat (rank self)
       @ ''-of-'' @ str_nat (world_size self)"

text \<open>
  \<^verbatim>\<open>config is {}\<close> compares the identity of \<^verbatim>\<open>config\<close> with a dict created by
  the comparison itself: it is false for every value.
\<close>

definition is_fresh_empty_dict :: "cval \<Rightarrow> bool" where
  "is_fresh_empty_dict c = False"

subsection \<open>\<^verbatim>\<open>recovery\<close> (lines 26 to 51)\<close>

definition recovery_load_model :: "checkpoint_dict \<Rightarrow> 'b trainer \<Rightarrow> 'b result" where
  "recovery_load_model ckd self =
     (case ckd ''model'' of
        None \<Rightarrow> Inl (KeyError, self)
      | Some model_state \<Rightarrow>
          (case load_state_dict RuntimeError (model self) model_state of
             Inl e \<Rightarrow> Inl (e, self)
           | Inr m \<Rightarrow> Inr (self\<lparr>model := m\<rparr>)))"

definition recovery_load_optimizer :: "checkpoint_dict \<Rightarrow> 'b trainer \<Rightarrow> 'b result" where
  "recovery_load_optimizer ckd self =
     (case ckd ''optimizer_state_dict'' of
        None \<Rightarrow> Inl (KeyError, self)
      | Some optimizer_state \<Rightarrow>
          (case load_state_dict ValueError (optimizer self) optimizer_state of
             Inl e \<Rightarrow> Inl (e, self)
           | Inr opt \<Rightarrow> Inr (self\<lparr>optimizer := opt\<rparr>)))"

text \<open>
  Line 43: \<^verbatim>\<open>hasattr(self, "lr_scheduler")\<close> holds after \<^verbatim>\<open>prepare\<close>, also when
  the attribute is \<^verbatim>\<open>None\<close>; \<^verbatim>\<open>None.load_state_dict\<close> is an \<^verbatim>\<open>AttributeError\<close>.
\<close>

definition recovery_load_scheduler :: "checkpoint_dict \<Rightarrow> 'b trainer \<Rightarrow> 'b result" where
  "recovery_load_scheduler ckd self =
     (case ckd ''lr_scheduler'' of
        None \<Rightarrow> Inr self
      | Some scheduler_state \<Rightarrow>
          (case lr_scheduler self of
             None \<Rightarrow> Inl (AttributeError, self)
           | Some cur \<Rightarrow>
               (case scheduler_load_state_dict cur scheduler_state of
                  Inl e \<Rightarrow> Inl (e, self)
                | Inr sch \<Rightarrow> Inr (self\<lparr>lr_scheduler := Some sch\<rparr>))))"

definition recovery_set_epoch :: "checkpoint_dict \<Rightarrow> 'b trainer \<Rightarrow> 'b result" where
  "recovery_set_epoch ckd self =
     (case ckd ''epoch'' of
        None \<Rightarrow> Inl (KeyError, self)
      | Some (CkInt checkpoint_epoch) \<Rightarrow>
          Inr (emit (Info_recovery_to_epoch (checkpoint_epoch + 1))
                 (self\<lparr>starting_epoch := checkpoint_epoch + 1\<rparr>))
      | Some _ \<Rightarrow> Inl (TypeError, self))"

text \<open>The body of the \<^verbatim>\<open>try\<close> (lines 35 to 49).\<close>

definition recovery_try :: "string \<Rightarrow> 'b trainer \<Rightarrow> 'b result" where
  "recovery_try local_checkpoint_path self =
     (let s = emit (Info_start_recovery local_checkpoint_path) self in
      case store s local_checkpoint_path of
        None \<Rightarrow> Inl (FileNotFoundError, s)
      | Some checkpoint_dict \<Rightarrow>
          then_do (then_do (then_do (recovery_load_model checkpoint_dict s)
            (recovery_load_optimizer checkpoint_dict))
            (recovery_load_scheduler checkpoint_dict))
            (recovery_set_epoch checkpoint_dict))"

definition recovery :: "cval \<Rightarrow> 'b trainer \<Rightarrow> 'b result" where
  "recovery cfg self =
     (let s0 = (if cfg = Scalar VNone \<or> is_fresh_empty_dict cfg
                then emit Warn_checkpoint_empty self else self)
      in case cfg of
           Scalar v \<Rightarrow> Inl (AttributeError, s0)
         | Dict d \<Rightarrow>
             (let root_path = dict_get (map_of d) ''root_path'' VNone;
                  model_name = dict_get (map_of d) ''model_name'' (VStr '''');
                  s1 = (if root_path = VNone then emit Warn_root_path_empty s0 else s0);
                  local_checkpoint_path = get_local_path s1 root_path model_name
              in case recovery_try local_checkpoint_path s1 of
                   Inl (e, s2) \<Rightarrow> Inr (emit (Warn_recovery_error e) s2)
                 | Inr s2 \<Rightarrow> Inr s2))"

subsection \<open>\<^verbatim>\<open>save\<close> (lines 177 to 197)\<close>

text \<open>
  \<^verbatim>\<open>unwrap_model\<close> is taken as the identity on the model's state;
  \<^verbatim>\<open>if self.lr_scheduler:\<close> holds for every scheduler object and fails for \<^verbatim>\<open>None\<close>.
  \<^verbatim>\<open>Checkpoint.to_directory\<close> replaces what the directory held.
\<close>

definition save_status :: "int \<Rightarrow> 'b trainer \<Rightarrow> checkpoint_dict" where
  "save_status epoch self =
     (let status = [''epoch'' \<mapsto> CkInt epoch, ''model'' \<mapsto> CkState (model self),
                    ''optimizer_state_dict'' \<mapsto> CkState (optimizer self)]
      in case lr_scheduler self of
           None \<Rightarrow> status
         | Some sch \<Rightarrow> status(''lr_scheduler'' \<mapsto> CkState sch))"

definition save :: "cval \<Rightarrow> int \<Rightarrow> 'b trainer \<Rightarrow> 'b result" where
  "save cfg epoch self =
     (let s0 = (if cfg = Scalar VNone \<or> is_fresh_empty_dict cfg
                then emit Warn_checkpoint_empty self else self)
      in case cfg of
           Scalar v \<Rightarrow> Inl (AttributeError, s0)
         | Dict d \<Rightarrow>
             (let root_path = dict_get (map_of d) ''root_path'' VNone;
                  model_name = dict_get (map_of d) ''model_name'' (VStr '''');
                  s1 = (if root_path = VNone then emit Warn_root_path_empty s0 else s0);
                  local_checkpoint_path = get_local_path s1 root_path model_name;
                  s2 = emit (Info_save_checkpoint local_checkpoint_path) s1;
                  status = save_status epoch s2;
                  s3 = emit (CheckpointWrite local_checkpoint_path)
                         (s2\<lparr>store := (store s2)(local_checkpoint_path \<mapsto> status)\<rparr>)
              in Inr (emit Info_save_finish s3)))"

subsection \<open>\<^verbatim>\<open>train\<close> (lines 115 to 172)\<close>

text \<open>One iteration of the loop of line 123, up to the \<^verbatim>\<open>break\<close> test of line 135.\<close>

definition train_step ::
  "'b engine \<Rightarrow> int \<Rightarrow> cval \<Rightarrow> int \<Rightarrow> nat \<Rightarrow> 'b \<Rightarrow> 'b trainer \<Rightarrow> 'b result" where
  "train_step env num_train_epochs log_step idx step batch self =
     (let loss = model_loss env (model self) batch;
          s1 = emit Backward (emit (Forward batch) self);
          mo = backward_step env (model s1) (optimizer s1) batch;
          s2 = emit OptimizerStep (s1\<lparr>model := fst mo, optimizer := snd mo\<rparr>);
          s3 = (case lr_scheduler s2 of
                  None \<Rightarrow> s2
                | Some sch \<Rightarrow>
                    (let so = scheduler_step env sch (optimizer s2)
                     in emit SchedulerStep (s2\<lparr>lr_scheduler := Some (fst so), optimizer := snd so\<rparr>)));
          s4 = emit ZeroGrad s3
      in case log_step of
           Scalar (VInt k) \<Rightarrow>
             (if k = 0 then Inl (ZeroDivisionError, s4)
              else if int step mod k = 0 then
                (case math_exp env loss of
                   Inl e \<Rightarrow> Inl (e, s4)
                 | Inr ppl \<Rightarrow> Inr (emit (Info_train_step idx step loss ppl) s4))
              else Inr s4)
         | _ \<Rightarrow> Inl (TypeError, s4))"

text \<open>The loop of lines 123 to 136 over \<^verbatim>\<open>enumerate(self.train_dataloader)\<close>.\<close>

fun train_batches ::
  "'b engine \<Rightarrow> int \<Rightarrow> cval \<Rightarrow> int \<Rightarrow> (nat \<times> 'b) list \<Rightarrow> 'b trainer \<Rightarrow> 'b result" where
  "train_batches env n log_step idx [] self = Inr self"
| "train_batches env n log_step idx ((step, batch) # rest) self =
     (case train_step env n log_step idx step batch self of
        Inl x \<Rightarrow> Inl x
      | Inr s \<Rightarrow> (if step = 0 then Inr s else train_batches env n log_step idx rest s))"

definition train_phase :: "'b engine \<Rightarrow> int \<Rightarrow> cval \<Rightarrow> int \<Rightarrow> 'b trainer \<Rightarrow> 'b result" where
  "train_phase env n log_step idx self =
     train_batches env n log_step idx (enumerate 0 (train_dataloader self))
       (emit ModelTrain (emit (Info_start_train_epoch idx) self))"

text \<open>The loop of lines 143 to 149, collecting \<^verbatim>\<open>losses\<close>.\<close>

fun eval_batches ::
  "'b engine \<Rightarrow> (nat \<times> 'b) list \<Rightarrow> pyfloat list list \<Rightarrow> 'b trainer
     \<Rightarrow> pyfloat list list \<times> 'b trainer" where
  "eval_batches env [] losses self = (losses, self)"
| "eval_batches env ((step, batch) # rest) losses self =
     (let loss = model_loss env (model self) batch;
          s1 = emit Gather (emit (ForwardNoGrad batch) self);
          losses' = losses @ [gather_for_metrics env [loss, loss]]
      in if step = 0 then (losses', s1) else eval_batches env rest losses' s1)"

text \<open>Lines 152 to 157: only an \<^verbatim>\<open>OverflowError\<close> is handled.\<close>

definition eval_metrics :: "'b engine \<Rightarrow> pyfloat list \<Rightarrow> pyerr + pyfloat \<times> pyfloat" where
  "eval_metrics env losses =
     (let eval_loss = torch_mean losses
      in case math_exp env eval_loss of
           Inr perplexity \<Rightarrow> Inr (eval_loss, perplexity)
         | Inl e \<Rightarrow> (if e = OverflowError then Inr (PInf, PInf) else Inl e))"

definition eval_phase :: "'b engine \<Rightarrow> int \<Rightarrow> int \<Rightarrow> 'b list \<Rightarrow> 'b trainer \<Rightarrow> 'b result" where
  "eval_phase env n idx loader self =
     (let s0 = emit ModelEval (emit (Info_start_eval_epoch idx) self);
          ls = eval_batches env (enumerate 0 loader) [] s0
      in case torch_cat (fst ls) of
           Inl e \<Rightarrow> Inl (e, snd ls)
         | Inr losses \<Rightarrow>
             (case eval_metrics env losses of
                Inl e \<Rightarrow> Inl (e, snd ls)
              | Inr m \<Rightarrow> Inr (emit (Info_eval idx (fst m) (snd m)) (snd ls))))"

text \<open>
  The body of the loop of line 119. \<^verbatim>\<open>if self.eval_dataloader:\<close> holds for a loader
  with at least one batch.
\<close>

definition epoch_body :: "'b engine \<Rightarrow> int \<Rightarrow> cval \<Rightarrow> cval \<Rightarrow> int \<Rightarrow> 'b trainer \<Rightarrow> 'b result" where
  "epoch_body env n checkpoint log_step idx self =
     then_do (train_phase env n log_step idx self) (\<lambda>s1.
     then_do (case eval_dataloader s1 of
                Some (b # bs) \<Rightarrow> eval_phase env n idx (b # bs) s1
              | _ \<Rightarrow> Inr s1) (\<lambda>s2.
     then_do (if checkpoint = Scalar VNone then Inr s2 else save checkpoint idx s2) (\<lambda>s3.
     Inr (emit WaitForEveryone s3))))"

fun train_epochs ::
  "'b engine \<Rightarrow> int \<Rightarrow> cval \<Rightarrow> cval \<Rightarrow> int list \<Rightarrow> 'b trainer \<Rightarrow> 'b result" where
  "train_epochs env n checkpoint log_step [] self = Inr self"
| "train_epochs env n checkpoint log_step (idx # rest) self =
     then_do (epoch_body env n checkpoint log_step idx self)
       (train_epochs env n checkpoint log_step rest)"

text \<open>Lines 164 to 172.\<close>

definition train_finish :: "'b trainer \<Rightarrow> 'b result" where
  "train_finish self =
     (let output = dict_get (config self) ''output'' (Scalar (VStr ''./output''));
          s1 = (if output = Scalar VNone then self
                else emit (Info_finish_save_model output)
                       (emit (SavePretrained output (is_main_process self))
                          (emit (Info_start_save_model output) self)))
      in Inr (emit WaitForEveryone s1))"

text \<open>
  \<^verbatim>\<open>range(self.starting_epoch, num_train_epochs, 1)\<close> wants an integer bound and is
  the list \<open>[starting_epoch .. num_train_epochs - 1]\<close>.
\<close>

definition train :: "'b engine \<Rightarrow> 'b trainer \<Rightarrow> 'b result" where
  "train env self =
     (let num_train_epochs = dict_get (config self) ''num_train_epochs'' (Scalar (VInt 1));
          checkpoint = dict_get (config self) ''checkpoint'' (Scalar VNone);
          log_step = dict_get (config self) ''log_step'' (Scalar (VInt 1))
      in case num_train_epochs of
           Scalar (VInt n) \<Rightarrow>
             then_do (train_epochs env n checkpoint log_step [starting_epoch self .. n - 1] self)
               train_finish
         | _ \<Rightarrow> Inl (TypeError, self))"

section \<open>Vocabulary of the properties\<close>

text \<open>
  The checkpoint directory that \<^verbatim>\<open>recovery\<close> and \<^verbatim>\<open>save\<close> compute for the
  items \<open>d\<close> of a policy, and the \<^verbatim>\<open>try\<close> block of \<^verbatim>\<open>recovery\<close> as it is
  entered for that policy.
\<close>

definition policy_path :: "(string \<times> pyval) list \<Rightarrow> 'b trainer \<Rightarrow> string" where
  "policy_path d self =
     get_local_path self (dict_get (map_of d) ''root_path'' VNone)
       (dict_get (map_of d) ''model_name'' (VStr ''''))"

definition recovery_attempt :: "(string \<times> pyval) list \<Rightarrow> 'b trainer \<Rightarrow> 'b result" where
  "recovery_attempt d self =
     (let root_path = dict_get (map_of d) ''root_path'' VNone;
          model_name = dict_get (map_of d) ''model_name'' (VStr '''');
          s1 = (if root_path = VNone then emit Warn_root_path_empty self else self)
      in recovery_try (get_local_path s1 root_path model_name) s1)"

text \<open>The events of lines 164 to 172.\<close>

definition finish_events :: "'b trainer \<Rightarrow> 'b event list" where
  "finish_events self =
     (let output = dict_get (config self) ''output'' (Scalar (VStr ''./output''))
      in (if output = Scalar VNone then []
          else [Info_start_save_model output, SavePretrained output (is_main_process self),
                Info_finish_save_model output]) @ [WaitForEveryone])"

text \<open>The batches a trace has put through the model, in order.\<close>

fun processed :: "'b event list \<Rightarrow> 'b list" where
  "processed [] = []"
| "processed (Forward b # es) = b # processed es"
| "processed (ForwardNoGrad b # es) = b # processed es"
| "processed (e # es) = processed es"

text \<open>
  The phases of the state machine that a trace goes through: the training phase of an
  epoch starts with its log line, the evaluation phase with its own, a checkpoint phase
  writes a directory, a barrier is a \<^verbatim>\<open>wait_for_everyone\<close>, and the finalization saves
  the model.
\<close>

datatype phase = Training int | Evaluating int | Checkpointing | Barrier | Finalizing

fun phase_of :: "'b event \<Rightarrow> phase list" where
  "phase_of (Info_start_train_epoch idx) = [Training idx]"
| "phase_of (Info_start_eval_epoch idx) = [Evaluating idx]"
| "phase_of (CheckpointWrite p) = [Checkpointing]"
| "phase_of WaitForEveryone = [Barrier]"
| "phase_of (SavePretrained output main) = [Finalizing]"
| "phase_of e = []"

definition phases :: "'b event list \<Rightarrow> phase list" where
  "phases es = concat (map phase_of es)"



definition has_checkpoint :: "'b trainer \<Rightarrow> bool" where
  "has_checkpoint self =
     (case dict_get (config self) ''checkpoint'' (Scalar VNone) of
        Scalar VNone \<Rightarrow> False | _ \<Rightarrow> True)"


text \<open>What a call leaves alone: the configuration and the data sources.\<close>

definition same_setup :: "'b trainer \<Rightarrow> 'b trainer \<Rightarrow> bool" where
  "same_setup s s' =
     (config s' = config s \<and> train_dataloader s' = train_dataloader s
      \<and> eval_dataloader s' = eval_dataloader s \<and> is_main_process s' = is_main_process s)"

text \<open>
  The events of the training steps in a trace, and the block that the training step on
  a batch leaves: the forward pass, the backward pass, the optimizer step, the schedule
  advance if there is a schedule, and the gradient clear.
\<close>

fun is_step_op :: "'b event \<Rightarrow> bool" where
  "is_step_op (Forward b) = True"
| "is_step_op Backward = True"
| "is_step_op OptimizerStep = True"
| "is_step_op SchedulerStep = True"
| "is_step_op ZeroGrad = True"
| "is_step_op e = False"

definition step_ops :: "'b event list \<Rightarrow> 'b event list" where
  "step_ops es = filter is_step_op es"

definition step_pattern :: "bool \<Rightarrow> 'b \<Rightarrow> 'b event list" where
  "step_pattern with_schedule b =
     [Forward b, Backward, OptimizerStep] @ (if with_schedule then [SchedulerStep] else [])
       @ [ZeroGrad]"

definition steps_ok :: "'b trainer \<Rightarrow> 'b trainer \<Rightarrow> bool" where
  "steps_ok s s' =
     ((lr_scheduler s' = None) = (lr_scheduler s = None)
      \<and> (\<exists>bs. step_ops (trace s') =
               step_ops (trace s) @ concat (map (step_pattern (lr_scheduler s \<noteq> None)) bs)))"


subsection \<open>Concrete inputs\<close>

definition example_engine :: "nat engine" where
  "example_engine = \<lparr>model_loss = (\<lambda>m b. Fin 0),
     backward_step = (\<lambda>m opt b. (map (\<lambda>x. x + 1) m, opt)),
     scheduler_step = (\<lambda>sch opt. (map (\<lambda>x. x + 1) sch, opt)),
     gather_for_metrics = (\<lambda>xs. xs), math_exp = libm_exp\<rparr>"

definition example_trainer :: "nat trainer" where
  "example_trainer = \<lparr>config = Map.empty, starting_epoch = 0, model = [1, 2],
     optimizer = [3], lr_scheduler = Some [0], train_dataloader = [10, 20],
     eval_dataloader = Some [30, 40], rank = 0, world_size = 1, is_main_process = True,
     store = Map.empty, trace = []\<rparr>"

definition example_policy :: "(string \<times> pyval) list" where
  "example_policy = [(''root_path'', VStr ''/ckpt''), (''model_name'', VStr ''m'')]"

text \<open>A record whose optimizer state is no state dict.\<close>

definition corrupt_store :: "string \<rightharpoonup> checkpoint_dict" where
  "corrupt_store = [''/ckpt/m_0-of-1'' \<mapsto>
      [''epoch'' \<mapsto> CkInt 7, ''model'' \<mapsto> CkState [5, 6],
       ''optimizer_state_dict'' \<mapsto> CkStr ''junk'']]"

section \<open>Basic facts\<close>

lemma emit_fields [simp]:
  "trace (emit e s) = trace s @ [e]"
  "config (emit e s) = config s"
  "starting_epoch (emit e s) = starting_epoch s"
  "model (emit e s) = model s"
  "optimizer (emit e s) = optimizer s"
  "lr_scheduler (emit e s) = lr_scheduler s"
  "train_dataloader (emit e s) = train_dataloader s"
  "eval_dataloader (emit e s) = eval_dataloader s"
  "rank (emit e s) = rank s"
  "world_size (emit e s) = world_size s"
  "is_main_process (emit e s) = is_main_process s"
  "store (emit e s) = store s"
  by (simp_all add: emit_def)

lemma get_local_path_emit [simp]:
  "get_local_path (emit e s) r m = get_local_path s r m"
  by (simp add: get_local_path_def)

lemma get_local_path_trace [simp]:
  "get_local_path (s\<lparr>trace := t\<rparr>) r m = get_local_path s r m"
  by (simp add: get_local_path_def)

lemma policy_path_emit [simp]: "policy_path d (emit e s) = policy_path d s"
  by (simp add: policy_path_def)

lemma save_status_emit [simp]: "save_status E (emit e s) = save_status E s"
  by (simp add: save_status_def)

lemma save_status_trace [simp]: "save_status E (s\<lparr>trace := t\<rparr>) = save_status E s"
  by (simp add: save_status_def)

lemma str_nat_digit: "n < 10 \<Longrightarrow> str_nat n = [digit_char n]"
  by (simp add: str_nat.simps)

lemma example_paths:
  "get_local_path example_trainer (VStr ''/ckpt'') (VStr '''') = ''/ckpt/_0-of-1''"
  "get_local_path example_trainer VNone (VStr ''m'') = ''None/m_0-of-1''"
  "get_local_path example_trainer (VStr ''/ckpt'') (VStr ''m'') = ''/ckpt/m_0-of-1''"
  by (simp_all add: get_local_path_def example_trainer_def str_nat_digit digit_char_def)

subsection \<open>\<^verbatim>\<open>save\<close> and \<^verbatim>\<open>recovery\<close> on a dict\<close>

lemma save_Dict:
  "save (Dict d) E self =
     Inr (self\<lparr>store := (store self)(policy_path d self \<mapsto> save_status E self),
           trace := trace self
             @ (if dict_get (map_of d) ''root_path'' VNone = VNone then [Warn_root_path_empty] else [])
             @ [Info_save_checkpoint (policy_path d self), CheckpointWrite (policy_path d self),
                Info_save_finish]\<rparr>)"
  by (simp add: save_def is_fresh_empty_dict_def Let_def policy_path_def)

lemma recovery_Dict:
  "recovery (Dict d) self =
     (case recovery_attempt d self of
        Inl (e, s2) \<Rightarrow> Inr (emit (Warn_recovery_error e) s2)
      | Inr s2 \<Rightarrow> Inr s2)"
  by (simp add: recovery_def recovery_attempt_def is_fresh_empty_dict_def Let_def)

lemma recovery_attempt_eq:
  "recovery_attempt d self =
     recovery_try (policy_path d self)
       (if dict_get (map_of d) ''root_path'' VNone = VNone
        then emit Warn_root_path_empty self else self)"
  by (simp add: recovery_attempt_def policy_path_def Let_def)

lemma recovery_load_model_epoch:
  "recovery_load_model ckd s = Inl (e, s') \<Longrightarrow> starting_epoch s' = starting_epoch s"
  "recovery_load_model ckd s = Inr s' \<Longrightarrow> starting_epoch s' = starting_epoch s"
  by (auto simp: recovery_load_model_def split: option.splits sum.splits)

lemma recovery_load_optimizer_epoch:
  "recovery_load_optimizer ckd s = Inl (e, s') \<Longrightarrow> starting_epoch s' = starting_epoch s"
  "recovery_load_optimizer ckd s = Inr s' \<Longrightarrow> starting_epoch s' = starting_epoch s"
  by (auto simp: recovery_load_optimizer_def split: option.splits sum.splits)

lemma recovery_load_scheduler_epoch:
  "recovery_load_scheduler ckd s = Inl (e, s') \<Longrightarrow> starting_epoch s' = starting_epoch s"
  "recovery_load_scheduler ckd s = Inr s' \<Longrightarrow> starting_epoch s' = starting_epoch s"
  by (auto simp: recovery_load_scheduler_def split: option.splits sum.splits)

lemma recovery_set_epoch_fail:
  "recovery_set_epoch ckd s = Inl (e, s') \<Longrightarrow> s' = s"
  by (auto simp: recovery_set_epoch_def split: option.splits ckval.splits)

lemma recovery_try_fail_epoch:
  assumes "recovery_try p s = Inl (e, s')"
  shows "starting_epoch s' = starting_epoch s"
  using assms
  by (auto simp: recovery_try_def then_do_def Let_def
      split: option.splits sum.splits
      dest!: recovery_load_model_epoch recovery_load_optimizer_epoch
        recovery_load_scheduler_epoch recovery_set_epoch_fail)

lemma recovery_attempt_fail_epoch:
  "recovery_attempt d self = Inl (e, s2) \<Longrightarrow> starting_epoch s2 = starting_epoch self"
  by (auto simp: recovery_attempt_def Let_def dest!: recovery_try_fail_epoch split: if_splits)

text \<open>What a successful pass through the \<^verbatim>\<open>try\<close> block has read and assigned.\<close>

lemma recovery_try_success:
  assumes "recovery_try p s = Inr s'"
  shows "\<exists>ckd m opt ep. store s p = Some ckd
     \<and> ckd ''model'' = Some (CkState m) \<and> model s' = m
     \<and> ckd ''optimizer_state_dict'' = Some (CkState opt) \<and> optimizer s' = opt
     \<and> ckd ''epoch'' = Some (CkInt ep) \<and> starting_epoch s' = ep + 1
     \<and> (ckd ''lr_scheduler'' = None \<and> lr_scheduler s' = lr_scheduler s
         \<or> (\<exists>sch. ckd ''lr_scheduler'' = Some (CkState sch) \<and> lr_scheduler s' = Some sch))"
  using assms
  by (auto simp: recovery_try_def Let_def then_do_def recovery_load_model_def
      recovery_load_optimizer_def recovery_load_scheduler_def recovery_set_epoch_def
      load_state_dict_def scheduler_load_state_dict_def
      split: option.splits sum.splits ckval.splits if_splits)

text \<open>Reading back what \<^verbatim>\<open>save\<close> wrote, into a trainer of the same shapes.\<close>

lemma recovery_try_roundtrip:
  assumes "store u p = Some (save_status E t)"
    and "length (model u) = length (model t)"
    and "length (optimizer u) = length (optimizer t)"
    and "lr_scheduler t \<noteq> None \<longrightarrow> lr_scheduler u \<noteq> None"
  shows "recovery_try p u =
     Inr (u\<lparr>model := model t, optimizer := optimizer t,
            lr_scheduler := (case lr_scheduler t of None \<Rightarrow> lr_scheduler u | Some sch \<Rightarrow> Some sch),
            starting_epoch := E + 1,
            trace := trace u @ [Info_start_recovery p, Info_recovery_to_epoch (E + 1)]\<rparr>)"
proof (cases "lr_scheduler t")
  case None
  with assms show ?thesis
    by (simp add: recovery_try_def then_do_def save_status_def recovery_load_model_def
        recovery_load_optimizer_def recovery_load_scheduler_def recovery_set_epoch_def
        load_state_dict_def emit_def)
next
  case (Some sch)
  with assms obtain cur where "lr_scheduler u = Some cur" by auto
  with Some assms show ?thesis
    by (simp add: recovery_try_def then_do_def save_status_def recovery_load_model_def
        recovery_load_optimizer_def recovery_load_scheduler_def recovery_set_epoch_def
        load_state_dict_def scheduler_load_state_dict_def emit_def)
qed

lemma example_policy_path [simp]:
  "policy_path example_policy example_trainer = ''/ckpt/m_0-of-1''"
  by (simp add: policy_path_def example_policy_def dict_get_def example_paths)

lemma policy_path_fields [simp]:
  "policy_path d (s\<lparr>store := st\<rparr>) = policy_path d s"
  "policy_path d (s\<lparr>trace := tr\<rparr>) = policy_path d s"
  "policy_path d (s\<lparr>model := m\<rparr>) = policy_path d s"
  "policy_path d (s\<lparr>optimizer := opt\<rparr>) = policy_path d s"
  by (simp_all add: policy_path_def get_local_path_def)

lemma corrupt_attempt:
  "recovery_attempt example_policy (example_trainer\<lparr>store := corrupt_store\<rparr>)
     = Inl (TypeError, example_trainer\<lparr>store := corrupt_store, model := [5, 6],
         trace := [Info_start_recovery ''/ckpt/m_0-of-1'']\<rparr>)"
  apply (simp add: recovery_attempt_eq)
  apply (simp add: example_policy_def dict_get_def)
  apply (simp add: recovery_try_def corrupt_store_def then_do_def recovery_load_model_def
        recovery_load_optimizer_def load_state_dict_def)
  apply (simp add: example_trainer_def emit_def)
  done

subsection \<open>The training loop\<close>

lemma train_finish_eq:
  "train_finish self = Inr (self\<lparr>trace := trace self @ finish_events self\<rparr>)"
  by (simp add: train_finish_def finish_events_def Let_def emit_def)

lemma processed_append: "processed (xs @ ys) = processed xs @ processed ys"
  by (induction xs rule: processed.induct) simp_all

lemma train_step_processed:
  "processed (trace (result_state (train_step env n ls idx step batch self)))
     = processed (trace self) @ [batch]"
  by (simp add: train_step_def result_state_def Let_def processed_append
      split: cval.splits pyval.splits option.splits sum.splits prod.splits)

lemma train_batches_first:
  "train_batches env n ls idx (enumerate 0 (b # bs)) s = train_step env n ls idx 0 b s"
  by (simp split: sum.splits)

subsection \<open>Floating point\<close>

lemma exp_overflow:
  assumes "1025 \<le> x"
  shows "DBL_MAX < exp (x::real)"
proof -
  have "(2::real) \<le> exp 1"
    using exp_ge_add_one_self [of "1::real"] by simp
  then have "(2::real) ^ 1025 \<le> exp 1 ^ 1025"
    by (intro power_mono) simp_all
  also have "exp (1::real) ^ 1025 = exp 1025"
    using exp_of_nat_mult [of 1025 "1::real"] by simp
  also have "\<dots> \<le> exp x"
    using assms by simp
  finally have "(2::real) ^ 1025 \<le> exp x" .
  moreover have "DBL_MAX < (2::real) ^ 1025"
    by (simp add: DBL_MAX_def)
  ultimately show ?thesis by linarith
qed



subsection \<open>The phases of a run\<close>

lemma eval_batches_first:
  "eval_batches env (enumerate 0 (b # bs)) [] s =
     ([gather_for_metrics env [model_loss env (model s) b, model_loss env (model s) b]],
      emit Gather (emit (ForwardNoGrad b) s))"
  by (simp add: Let_def)

lemma phases_simps [simp]:
  "phases [] = []"
  "phases (e # es) = phase_of e @ phases es"
  "phases (xs @ ys) = phases xs @ phases ys"
  by (simp_all add: phases_def)

lemma same_setup_refl [simp]: "same_setup s s"
  by (simp add: same_setup_def)


lemma same_setup_emit [simp]: "same_setup s (emit e s') = same_setup s s'"
  by (simp add: same_setup_def)


lemma has_checkpoint_setup: "same_setup s s' \<Longrightarrow> has_checkpoint s' = has_checkpoint s"
  by (simp add: same_setup_def has_checkpoint_def)








subsection \<open>The order of the per-step operations\<close>

lemma step_ops_simps [simp]:
  "step_ops [] = []"
  "step_ops (e # es) = (if is_step_op e then e # step_ops es else step_ops es)"
  "step_ops (xs @ ys) = step_ops xs @ step_ops ys"
  by (simp_all add: step_ops_def)

lemma steps_ok_refl [simp]: "steps_ok s s"
  unfolding steps_ok_def by (intro conjI exI [of _ "[]"]) simp_all

lemma steps_ok_trans:
  assumes "steps_ok s s1" and "steps_ok s1 s2"
  shows "steps_ok s s2"
proof -
  from assms(1) obtain bs1 where 1: "(lr_scheduler s1 = None) = (lr_scheduler s = None)"
    "step_ops (trace s1) =
       step_ops (trace s) @ concat (map (step_pattern (lr_scheduler s \<noteq> None)) bs1)"
    by (auto simp: steps_ok_def)
  from assms(2) obtain bs2 where 2: "(lr_scheduler s2 = None) = (lr_scheduler s1 = None)"
    "step_ops (trace s2) =
       step_ops (trace s1) @ concat (map (step_pattern (lr_scheduler s1 \<noteq> None)) bs2)"
    by (auto simp: steps_ok_def)
  have "step_ops (trace s2) = step_ops (trace s)
      @ concat (map (step_pattern (lr_scheduler s \<noteq> None)) (bs1 @ bs2))"
    using 1 2 by simp
  then show ?thesis
    unfolding steps_ok_def using 1(1) 2(1)
    by (intro conjI exI [of _ "bs1 @ bs2"]) simp_all
qed

lemma steps_ok_quiet:
  assumes "lr_scheduler s' = lr_scheduler s" and "trace s' = trace s @ es"
    and "step_ops es = []"
  shows "steps_ok s s'"
  unfolding steps_ok_def using assms by (intro conjI exI [of _ "[]"]) simp_all

lemma steps_ok_then_do:
  assumes "steps_ok s (result_state r)"
    and "\<And>s1. r = Inr s1 \<Longrightarrow> steps_ok s1 (result_state (f s1))"
  shows "steps_ok s (result_state (then_do r f))"
proof (cases r)
  case (Inl x)
  with assms(1) show ?thesis by (simp add: then_do_def)
next
  case (Inr s1)
  with assms have "steps_ok s s1" and "steps_ok s1 (result_state (f s1))"
    by (simp_all add: result_state_def)
  then have "steps_ok s (result_state (f s1))" by (rule steps_ok_trans)
  with Inr show ?thesis by (simp add: then_do_def)
qed

lemma train_step_ops:
  "step_ops (trace (result_state (train_step env n ls idx step batch s)))
     = step_ops (trace s) @ step_pattern (lr_scheduler s \<noteq> None) batch"
  "(lr_scheduler (result_state (train_step env n ls idx step batch s)) = None)
     = (lr_scheduler s = None)"
  by (simp_all add: train_step_def result_state_def Let_def step_pattern_def
      split: cval.splits pyval.splits option.splits sum.splits prod.splits)

lemma train_step_steps_ok:
  "steps_ok s (result_state (train_step env n ls idx step batch s))"
  unfolding steps_ok_def
  by (intro conjI exI [of _ "[batch]"]) (simp_all add: train_step_ops)

lemma train_phase_steps_ok:
  "steps_ok s (result_state (train_phase env n ls idx s))"
proof -
  let ?s0 = "emit ModelTrain (emit (Info_start_train_epoch idx) s)"
  have 0: "steps_ok s ?s0"
    by (rule steps_ok_quiet [where es = "[Info_start_train_epoch idx, ModelTrain]"]) simp_all
  show ?thesis
  proof (cases "train_dataloader s")
    case Nil
    with 0 show ?thesis by (simp add: train_phase_def result_state_def)
  next
    case (Cons b bs)
    have "steps_ok ?s0 (result_state (train_step env n ls idx 0 b ?s0))"
      by (rule train_step_steps_ok)
    with 0 have "steps_ok s (result_state (train_step env n ls idx 0 b ?s0))"
      by (rule steps_ok_trans)
    with Cons show ?thesis by (simp only: train_phase_def train_batches_first)
  qed
qed

lemma eval_phase_steps_ok:
  "steps_ok s (result_state (eval_phase env n idx (b # bs) s))"
proof -
  have "\<exists>es. lr_scheduler (result_state (eval_phase env n idx (b # bs) s)) = lr_scheduler s
      \<and> trace (result_state (eval_phase env n idx (b # bs) s)) = trace s @ es
      \<and> step_ops es = []"
    by (simp only: eval_phase_def eval_batches_first Let_def fst_conv snd_conv)
       (auto simp: torch_cat_def result_state_def split: sum.splits)
  then show ?thesis by (auto intro: steps_ok_quiet)
qed

lemma save_steps_ok: "steps_ok s (result_state (save ck E s))"
proof (cases ck)
  case (Scalar v)
  then show ?thesis
    by (auto simp: save_def result_state_def is_fresh_empty_dict_def
        intro!: steps_ok_quiet [where es = "[Warn_checkpoint_empty]"])
next
  case (Dict d)
  then show ?thesis
    by (auto simp: save_Dict result_state_def intro!: steps_ok_quiet)
qed

lemma epoch_body_steps_ok:
  "steps_ok s (result_state (epoch_body env n ck ls idx s))"
  unfolding epoch_body_def
proof (intro steps_ok_then_do)
  show "steps_ok s (result_state (train_phase env n ls idx s))"
    by (rule train_phase_steps_ok)
next
  fix s1
  show "steps_ok s1 (result_state (case eval_dataloader s1 of
          Some (b # bs) \<Rightarrow> eval_phase env n idx (b # bs) s1 | _ \<Rightarrow> Inr s1))"
    by (auto simp: result_state_def [of "Inr s1"] eval_phase_steps_ok
        split: option.splits list.splits)
next
  fix s2
  show "steps_ok s2 (result_state (if ck = Scalar VNone then Inr s2 else save ck idx s2))"
    by (simp add: save_steps_ok result_state_def [of "Inr s2"])
next
  fix s3
  show "steps_ok s3 (result_state (Inr (emit WaitForEveryone s3)))"
    by (auto simp: result_state_def intro!: steps_ok_quiet [where es = "[WaitForEveryone]"])
qed

lemma train_epochs_steps_ok:
  "steps_ok s (result_state (train_epochs env n ck ls idxs s))"
proof (induction idxs arbitrary: s)
  case Nil
  show ?case by (simp add: result_state_def)
next
  case (Cons idx rest)
  show ?case
    by (simp only: train_epochs.simps) (intro steps_ok_then_do epoch_body_steps_ok Cons.IH)
qed

lemma train_finish_steps_ok: "steps_ok s (result_state (train_finish s))"
  by (auto simp: train_finish_eq result_state_def finish_events_def Let_def
      intro!: steps_ok_quiet)

lemma train_steps_ok: "steps_ok s (result_state (train env s))"
proof (cases "dict_get (config s) ''num_train_epochs'' (Scalar (VInt 1))")
  case (Scalar v)
  show ?thesis
  proof (cases v)
    case (VInt n)
    with Scalar have "train env s = then_do
        (train_epochs env n (dict_get (config s) ''checkpoint'' (Scalar VNone))
           (dict_get (config s) ''log_step'' (Scalar (VInt 1))) [starting_epoch s .. n - 1] s)
        train_finish"
      by (simp add: train_def)
    then show ?thesis
      by (simp only:) (intro steps_ok_then_do train_epochs_steps_ok train_finish_steps_ok)
  qed (use Scalar in \<open>simp_all add: train_def result_state_def\<close>)
next
  case (Dict d)
  then show ?thesis by (simp add: train_def result_state_def)
qed

subsection \<open>A run of one epoch\<close>

lemma example_run:
  "train example_engine example_trainer =
     Inr (example_trainer\<lparr>model := [2, 3], lr_scheduler := Some [1],
       trace := [Info_start_train_epoch 0, ModelTrain, Forward 10, Backward, OptimizerStep,
         SchedulerStep, ZeroGrad, Info_train_step 0 0 (Fin 0) (Fin 1),
         Info_start_eval_epoch 0, ModelEval, ForwardNoGrad 30, Gather,
         Info_eval 0 (Fin 0) (Fin 1), WaitForEveryone,
         Info_start_save_model (Scalar (VStr ''./output'')),
         SavePretrained (Scalar (VStr ''./output'')) True,
         Info_finish_save_model (Scalar (VStr ''./output'')), WaitForEveryone]\<rparr>)"
  by (simp add: train_def dict_get_def example_trainer_def example_engine_def upto.simps
      then_do_def epoch_body_def train_phase_def train_step_def Let_def emit_def
      eval_phase_def torch_cat_def eval_metrics_def torch_mean_def train_finish_def
      DBL_MAX_def)

section \<open>The claims\<close>

text \<open>
  C1. For every epoch, the training phase processes every batch of the train data source,
  and the evaluation phase every eval batch; truncation to one batch happens only under
  an explicit flag. The code does otherwise: whatever the configuration, the training
  phase puts exactly the first batch of \<^verbatim>\<open>train_dataloader\<close> through the model (the
  \<^verbatim>\<open>break\<close> of line 136), and the evaluation phase exactly the first eval batch
  (line 149). The theorem states what the code does.
\<close>

theorem C1_one_batch_per_phase:
  "processed (trace (result_state (train_phase env n ls idx self)))
     = processed (trace self) @ take 1 (train_dataloader self)
   \<and> processed (trace (result_state (eval_phase env n idx loader self)))
     = processed (trace self) @ take 1 loader"
proof
  show "processed (trace (result_state (train_phase env n ls idx self)))
     = processed (trace self) @ take 1 (train_dataloader self)"
  proof (cases "train_dataloader self")
    case Nil
    then show ?thesis by (simp add: train_phase_def result_state_def processed_append)
  next
    case (Cons b bs)
    then show ?thesis
      by (simp only: train_phase_def train_batches_first train_step_processed)
         (simp add: processed_append)
  qed
next
  show "processed (trace (result_state (eval_phase env n idx loader self)))
     = processed (trace self) @ take 1 loader"
    by (cases loader)
      (simp_all add: eval_phase_def result_state_def Let_def processed_append torch_cat_def
        split: sum.splits prod.splits)
qed

text \<open>With two train batches, 10 and 20, only batch 10 is processed.\<close>

theorem C1_failing_input:
  "processed (trace (result_state (train_phase example_engine 1 (Scalar (VInt 1)) 0 example_trainer)))
     = [10]
   \<and> train_dataloader example_trainer = [10, 20]"
  using C1_one_batch_per_phase [of example_engine 1 "Scalar (VInt 1)" 0 example_trainer]
  by (simp add: example_trainer_def)

text \<open>
  C2, as amended. If the policy passed to \<^verbatim>\<open>save\<close> lacks \<^verbatim>\<open>root_path\<close>, the warning
  that the root path is empty is logged. If it has a \<^verbatim>\<open>root_path\<close> and lacks only
  \<^verbatim>\<open>model_name\<close>, nothing is skipped and nothing is warned: the name defaults to the
  empty string and one checkpoint is written to the directory
  \<^verbatim>\<open>{root_path}/_{rank}-of-{size}\<close>.
\<close>

theorem C2_save_without_model_name:
  "(dict_get (map_of d) ''root_path'' VNone = VNone \<longrightarrow>
      Warn_root_path_empty \<in> set (trace (result_state (save (Dict d) E self))))
   \<and> (map_of d ''root_path'' = Some r \<and> r \<noteq> VNone \<and> map_of d ''model_name'' = None \<longrightarrow>
        save (Dict d) E self =
          Inr (self\<lparr>store := (store self)(get_local_path self r (VStr '''') \<mapsto> save_status E self),
                trace := trace self @ [Info_save_checkpoint (get_local_path self r (VStr '''')),
                  CheckpointWrite (get_local_path self r (VStr '''')), Info_save_finish]\<rparr>))"
  by (simp add: save_Dict result_state_def policy_path_def dict_get_def)

theorem C2_witness:
  "Warn_root_path_empty \<in> set (trace (result_state (save (Dict [(''model_name'', VStr ''m'')]) 0 example_trainer)))
   \<and> save (Dict [(''root_path'', VStr ''/ckpt'')]) 5 example_trainer
       = Inr (example_trainer\<lparr>
           store := [''/ckpt/_0-of-1'' \<mapsto> save_status 5 example_trainer],
           trace := [Info_save_checkpoint ''/ckpt/_0-of-1'', CheckpointWrite ''/ckpt/_0-of-1'',
                     Info_save_finish]\<rparr>)"
  using C2_save_without_model_name [where d = "[(''model_name'', VStr ''m'')]" and E = 0
      and self = example_trainer]
    C2_save_without_model_name [where d = "[(''root_path'', VStr ''/ckpt'')]"
      and r = "VStr ''/ckpt''" and E = 5 and self = example_trainer]
  by (simp add: dict_get_def example_paths) (simp add: example_trainer_def)

text \<open>
  C2 as stated fails: a policy with a \<^verbatim>\<open>root_path\<close> and no \<^verbatim>\<open>model_name\<close> is saved,
  with no warning.
\<close>

theorem C2_counterexample:
  "map_of [(''root_path'', VStr ''/ckpt'')] ''model_name'' = None
   \<and> save (Dict [(''root_path'', VStr ''/ckpt'')]) 0 example_trainer
       = Inr (example_trainer\<lparr>
           store := [''/ckpt/_0-of-1'' \<mapsto> save_status 0 example_trainer],
           trace := [Info_save_checkpoint ''/ckpt/_0-of-1'', CheckpointWrite ''/ckpt/_0-of-1'',
                     Info_save_finish]\<rparr>)"
  by (simp add: save_Dict policy_path_def dict_get_def example_paths)
     (simp add: example_trainer_def)



text \<open>
  C4. Round trip: for every epoch \<open>E\<close> and every policy that is a dict, \<^verbatim>\<open>save\<close> at
  epoch \<open>E\<close> returns, and \<^verbatim>\<open>recovery\<close> with the same policy in a trainer \<open>u\<close> that
  sees the written directories, has the same rank and size, a model and an optimizer of
  the saved shapes and a scheduler if one was saved, yields \<open>starting_epoch = E + 1\<close> and
  the model, optimizer and scheduler states that were saved.
\<close>

theorem C4_save_recovery_roundtrip:
  assumes "store u = store (result_state (save (Dict d) E t))"
    and "rank u = rank t" and "world_size u = world_size t"
    and "length (model u) = length (model t)"
    and "length (optimizer u) = length (optimizer t)"
    and "lr_scheduler t \<noteq> None \<longrightarrow> lr_scheduler u \<noteq> None"
  shows "(\<exists>t'. save (Dict d) E t = Inr t')
     \<and> (\<exists>u'. recovery (Dict d) u = Inr u' \<and> starting_epoch u' = E + 1
           \<and> model u' = model t \<and> optimizer u' = optimizer t
           \<and> (lr_scheduler t \<noteq> None \<longrightarrow> lr_scheduler u' = lr_scheduler t))"
proof -
  have p: "policy_path d u = policy_path d t"
    using assms(2,3) by (simp add: policy_path_def get_local_path_def)
  have st: "store u (policy_path d u) = Some (save_status E t)"
    using assms(1) p by (simp add: save_Dict result_state_def)
  let ?u0 = "if dict_get (map_of d) ''root_path'' VNone = VNone
             then emit Warn_root_path_empty u else u"
  have "recovery_try (policy_path d u) ?u0 =
     Inr (?u0\<lparr>model := model t, optimizer := optimizer t,
            lr_scheduler := (case lr_scheduler t of None \<Rightarrow> lr_scheduler ?u0 | Some sch \<Rightarrow> Some sch),
            starting_epoch := E + 1,
            trace := trace ?u0 @ [Info_start_recovery (policy_path d u),
              Info_recovery_to_epoch (E + 1)]\<rparr>)"
    by (rule recovery_try_roundtrip) (use st assms in auto)
  then show ?thesis
    by (auto simp: recovery_Dict recovery_attempt_eq save_Dict)
qed

text \<open>Saved at epoch 3, read back by a restarted trainer with fresh states.\<close>

theorem C4_witness:
  "(\<exists>t'. save (Dict example_policy) 3 example_trainer = Inr t')
   \<and> (\<exists>u'. recovery (Dict example_policy)
          (example_trainer\<lparr>model := [0, 0], optimizer := [0],
             store := store (result_state (save (Dict example_policy) 3 example_trainer))\<rparr>) = Inr u'
        \<and> starting_epoch u' = 4 \<and> model u' = [1, 2] \<and> optimizer u' = [3]
        \<and> lr_scheduler u' = Some [0])"
  using C4_save_recovery_roundtrip [of
      "example_trainer\<lparr>model := [0, 0], optimizer := [0],
         store := store (result_state (save (Dict example_policy) 3 example_trainer))\<rparr>"
      example_policy 3 example_trainer]
  by (simp add: example_trainer_def)

text \<open>
  C5. For every checkpoint policy that is a mapping, \<^verbatim>\<open>recovery\<close> returns normally;
  whenever the \<^verbatim>\<open>try\<close> block fails (no directory, a key missing, a value of the
  wrong kind or shape), the exception is caught, the warning is logged and
  \<open>starting_epoch\<close> is what it was before the call, 0 for a trainer fresh from its
  constructor.
\<close>

theorem C5_recovery_never_raises:
  "(\<exists>s'. recovery (Dict d) self = Inr s')
   \<and> (\<forall>e s2. recovery_attempt d self = Inl (e, s2) \<longrightarrow>
         recovery (Dict d) self = Inr (emit (Warn_recovery_error e) s2)
         \<and> starting_epoch (emit (Warn_recovery_error e) s2) = starting_epoch self)"
  by (auto simp: recovery_Dict dest: recovery_attempt_fail_epoch split: sum.splits)

theorem C5_witness:
  "recovery (Dict example_policy) (example_trainer\<lparr>store := corrupt_store\<rparr>)
     = Inr (example_trainer\<lparr>store := corrupt_store, model := [5, 6],
         trace := [Info_start_recovery ''/ckpt/m_0-of-1'', Warn_recovery_error TypeError]\<rparr>)
   \<and> starting_epoch (example_trainer\<lparr>store := corrupt_store, model := [5, 6],
         trace := [Info_start_recovery ''/ckpt/m_0-of-1'', Warn_recovery_error TypeError]\<rparr>) = 0"
  using C5_recovery_never_raises [of example_policy "example_trainer\<lparr>store := corrupt_store\<rparr>"]
  by (simp add: corrupt_attempt) (simp add: emit_def example_trainer_def)

text \<open>
  C6. In the evaluation phase, when \<^verbatim>\<open>math.exp\<close> of the mean eval loss raises
  \<^verbatim>\<open>OverflowError\<close>, the phase returns normally and logs \<open>+infinity\<close> for both the
  eval loss and the perplexity. The example after the theorem is a loss of \<open>10\<^sup>6\<close>
  under the library's \<^verbatim>\<open>math.exp\<close>.
\<close>

theorem C6_perplexity_saturates:
  assumes "math_exp env (torch_mean (gather_for_metrics env
             [model_loss env (model self) b, model_loss env (model self) b])) = Inl OverflowError"
  shows "eval_phase env n idx (b # bs) self =
     Inr (self\<lparr>trace := trace self @ [Info_start_eval_epoch idx, ModelEval, ForwardNoGrad b,
            Gather, Info_eval idx PInf PInf]\<rparr>)"
  using assms
  by (simp only: eval_phase_def eval_batches_first Let_def fst_conv snd_conv)
     (simp add: torch_cat_def eval_metrics_def emit_def)

theorem C6_witness:
  "eval_phase (example_engine\<lparr>model_loss := (\<lambda>m b. Fin 1000000)\<rparr>) 1 0 [30, 40] example_trainer =
     Inr (example_trainer\<lparr>trace := [Info_start_eval_epoch 0, ModelEval, ForwardNoGrad 30,
            Gather, Info_eval 0 PInf PInf]\<rparr>)"
  using C6_perplexity_saturates [of "example_engine\<lparr>model_loss := (\<lambda>m b. Fin 1000000)\<rparr>"
      example_trainer 30 1 0 "[40]"]
  by (simp add: example_engine_def torch_mean_def exp_overflow) (simp add: example_trainer_def)

text \<open>
  C7. In every run of \<^verbatim>\<open>train\<close>, also one that ends in an exception, the events
  of the training steps are one block per processed batch, in order: the forward pass,
  the backward pass, the optimizer step, then one schedule advance if the trainer has a
  schedule, then the gradient clear. So the schedule is never advanced before the
  optimizer step of its training step, and never twice in a step.
\<close>

theorem C7_step_order:
  "\<exists>bs. step_ops (trace (result_state (train env self))) =
     step_ops (trace self) @ concat (map (step_pattern (lr_scheduler self \<noteq> None)) bs)"
  using train_steps_ok [of self env] by (simp add: steps_ok_def)

text \<open>One epoch over the example: one step, with the schedule advanced once.\<close>

theorem C7_witness:
  "step_ops (trace (result_state (train example_engine example_trainer)))
     = [Forward 10, Backward, OptimizerStep, SchedulerStep, ZeroGrad]"
  using C7_step_order [of example_engine example_trainer]
  by (simp add: example_run result_state_def)

text \<open>
  C8. When the \<^verbatim>\<open>try\<close> block of \<^verbatim>\<open>recovery\<close> raises, \<open>starting_epoch\<close> keeps the
  value it had before the call; it changes only when the model state, the optimizer
  state and, if the record has one, the scheduler state have been loaded and the epoch
  read. A failed attempt may already have replaced the model state, as in the example
  after the theorem.
\<close>

theorem C8_starting_epoch_assigned_last:
  assumes "recovery (Dict d) self = Inr s'"
  shows "((\<exists>e s2. recovery_attempt d self = Inl (e, s2)) \<longrightarrow> starting_epoch s' = starting_epoch self)
     \<and> (starting_epoch s' \<noteq> starting_epoch self \<longrightarrow>
          (\<exists>ckd m opt ep. store self (policy_path d self) = Some ckd
             \<and> ckd ''model'' = Some (CkState m) \<and> model s' = m
             \<and> ckd ''optimizer_state_dict'' = Some (CkState opt) \<and> optimizer s' = opt
             \<and> ckd ''epoch'' = Some (CkInt ep) \<and> starting_epoch s' = ep + 1
             \<and> (ckd ''lr_scheduler'' = None \<and> lr_scheduler s' = lr_scheduler self
                 \<or> (\<exists>sch. ckd ''lr_scheduler'' = Some (CkState sch) \<and> lr_scheduler s' = Some sch))))"
proof (cases "recovery_attempt d self")
  case (Inl x)
  obtain e s2 where x: "x = (e, s2)" by (cases x)
  from Inl x assms have "s' = emit (Warn_recovery_error e) s2"
    by (simp add: recovery_Dict)
  moreover from Inl x have "starting_epoch s2 = starting_epoch self"
    by (auto dest: recovery_attempt_fail_epoch)
  ultimately show ?thesis by simp
next
  case (Inr s2)
  with assms have s': "s' = s2" by (simp add: recovery_Dict)
  from Inr have "recovery_try (policy_path d self)
       (if dict_get (map_of d) ''root_path'' VNone = VNone
        then emit Warn_root_path_empty self else self) = Inr s'"
    by (simp add: recovery_attempt_eq s')
  from recovery_try_success [OF this] Inr show ?thesis
    by (auto split: if_splits)
qed

theorem C8_witness:
  "starting_epoch (example_trainer\<lparr>store := corrupt_store, model := [5, 6],
         trace := [Info_start_recovery ''/ckpt/m_0-of-1'', Warn_recovery_error TypeError]\<rparr>)
     = starting_epoch (example_trainer\<lparr>store := corrupt_store\<rparr>)
   \<and> model (example_trainer\<lparr>store := corrupt_store, model := [5, 6],
         trace := [Info_start_recovery ''/ckpt/m_0-of-1'', Warn_recovery_error TypeError]\<rparr>)
     \<noteq> model (example_trainer\<lparr>store := corrupt_store\<rparr>)
   \<and> recovery_attempt example_policy (example_trainer\<lparr>store := corrupt_store\<rparr>)
     = Inl (TypeError, example_trainer\<lparr>store := corrupt_store, model := [5, 6],
         trace := [Info_start_recovery ''/ckpt/m_0-of-1'']\<rparr>)"
proof -
  have r: "recovery (Dict example_policy) (example_trainer\<lparr>store := corrupt_store\<rparr>)
     = Inr (example_trainer\<lparr>store := corrupt_store, model := [5, 6],
         trace := [Info_start_recovery ''/ckpt/m_0-of-1'', Warn_recovery_error TypeError]\<rparr>)"
    by (simp add: recovery_Dict corrupt_attempt)
  from C8_starting_epoch_assigned_last [OF r] show ?thesis
    by (simp add: corrupt_attempt) (simp add: example_trainer_def)
qed

text \<open>
  C9. \<^verbatim>\<open>recovery\<close> and \<^verbatim>\<open>save\<close> called with the policy \<^verbatim>\<open>None\<close> log the warning
  that the checkpoint is empty and then raise \<^verbatim>\<open>AttributeError\<close> at
  \<^verbatim>\<open>config.get\<close>; the comparison \<^verbatim>\<open>config is {}\<close> is never true, so an empty
  dict passes the guard unwarned and \<^verbatim>\<open>save\<close> goes on to write.
\<close>

theorem C9_absent_policy_raises:
  "recovery (Scalar VNone) self = Inl (AttributeError, emit Warn_checkpoint_empty self)
   \<and> save (Scalar VNone) epoch self = Inl (AttributeError, emit Warn_checkpoint_empty self)
   \<and> \<not> is_fresh_empty_dict (Dict [])
   \<and> save (Dict []) epoch self =
        Inr (self\<lparr>store := (store self)(policy_path [] self \<mapsto> save_status epoch self),
              trace := trace self @ [Warn_root_path_empty, Info_save_checkpoint (policy_path [] self),
                CheckpointWrite (policy_path [] self), Info_save_finish]\<rparr>)"
  by (simp add: save_Dict dict_get_def)
     (simp add: recovery_def save_def is_fresh_empty_dict_def)

text \<open>
  C10. If \<open>starting_epoch\<close> is at least \<^verbatim>\<open>num_train_epochs\<close> when \<^verbatim>\<open>train\<close> is
  called, the loop body runs zero times: the trace grows by the final save (unless
  \<^verbatim>\<open>output\<close> is configured as \<^verbatim>\<open>None\<close>; the default is a path) and one final
  barrier, and nothing else of the trainer changes.
\<close>

theorem C10_no_epochs_left:
  assumes "dict_get (config self) ''num_train_epochs'' (Scalar (VInt 1)) = Scalar (VInt n)"
    and "n \<le> starting_epoch self"
  shows "train env self = Inr (self\<lparr>trace := trace self @ finish_events self\<rparr>)"
  using assms by (simp add: train_def then_do_def train_finish_eq)

theorem C10_witness:
  "train example_engine (example_trainer\<lparr>starting_epoch := 1\<rparr>)
     = Inr (example_trainer\<lparr>starting_epoch := 1,
         trace := [Info_start_save_model (Scalar (VStr ''./output'')),
                   SavePretrained (Scalar (VStr ''./output'')) True,
                   Info_finish_save_model (Scalar (VStr ''./output'')), WaitForEveryone]\<rparr>)"
  using C10_no_epochs_left [of "example_trainer\<lparr>starting_epoch := 1\<rparr>" 1 example_engine]
  by (simp add: example_trainer_def dict_get_def finish_events_def Let_def)

end
